theory Spec2Isabelle
  imports Complex_Main "HOL-Library.Word"
begin

section \<open>SimulatedRobot: world state, ball kinematics and frame conversions\<close>

text \<open>
  A shallow embedding of \<^verbatim>\<open>Src/Libs/SimulatedNao/SimulatedRobot.cpp\<close>.

  Numbers: a C++ \<^verbatim>\<open>float\<close> is modelled as a \<^typ>\<open>real\<close>, so rounding, infinities and
  NaN are outside the model; \<^verbatim>\<open>unsigned\<close> time stamps are \<^typ>\<open>32 word\<close> and
  their subtraction wraps; \<^verbatim>\<open>int\<close> player numbers are \<^typ>\<open>int\<close> (the only
  arithmetic on them subtracts the roster size from a number above it).
\<close>

subsection \<open>Vectors, angles and poses\<close>

datatype Vector2f = Vector2f (x2: real) (y2: real)

datatype Vector3f = Vector3f (x3: real) (y3: real) (z3: real)

definition Zero2 :: Vector2f where
  "Zero2 = Vector2f 0 0"

definition Zero3 :: Vector3f where
  "Zero3 = Vector3f 0 0 0"

text \<open>\<^verbatim>\<open>v.head<2>()\<close>\<close>

definition head2 :: "Vector3f \<Rightarrow> Vector2f" where
  "head2 v = Vector2f (x3 v) (y3 v)"

definition sub3 :: "Vector3f \<Rightarrow> Vector3f \<Rightarrow> Vector3f" where
  "sub3 a b = Vector3f (x3 a - x3 b) (y3 a - y3 b) (z3 a - z3 b)"

definition scale3 :: "real \<Rightarrow> Vector3f \<Rightarrow> Vector3f" where
  "scale3 k v = Vector3f (k * x3 v) (k * y3 v) (k * z3 v)"

definition div3 :: "Vector3f \<Rightarrow> real \<Rightarrow> Vector3f" where
  "div3 v k = Vector3f (x3 v / k) (y3 v / k) (z3 v / k)"

definition add2 :: "Vector2f \<Rightarrow> Vector2f \<Rightarrow> Vector2f" where
  "add2 a b = Vector2f (x2 a + x2 b) (y2 a + y2 b)"

definition scale2 :: "Vector2f \<Rightarrow> real \<Rightarrow> Vector2f" where
  "scale2 v k = Vector2f (x2 v * k) (y2 v * k)"

text \<open>\<^verbatim>\<open>v.norm()\<close>\<close>

definition norm2 :: "Vector2f \<Rightarrow> real" where
  "norm2 v = sqrt (x2 v * x2 v + y2 v * y2 v)"

text \<open>
  Modelled from the spec: \<^verbatim>\<open>Vector2f::rotate\<close> is declared in \<^verbatim>\<open>Math/Eigen.h\<close>, which is
  not among the sources. The specification says that the vector is rotated by the angle.
\<close>

definition rotate :: "Vector2f \<Rightarrow> real \<Rightarrow> Vector2f" where
  "rotate v alpha =
     Vector2f (cos alpha * x2 v - sin alpha * y2 v) (sin alpha * x2 v + cos alpha * y2 v)"

record Pose2f =
  rotation :: real
  translation :: Vector2f

text \<open>\<^verbatim>\<open>Pose2f(pi)\<close>: a pose made of a rotation only.\<close>

definition Pose2f_rot :: "real \<Rightarrow> Pose2f" where
  "Pose2f_rot alpha = \<lparr>rotation = alpha, translation = Zero2\<rparr>"

text \<open>
  Modelled from the spec: \<^verbatim>\<open>Pose2f::operator+\<close> is declared in the mathematics library,
  which is not among the sources. The specification calls it the composition of the left
  pose with the right one: the right translation is rotated by the left rotation and moved
  by the left translation, the rotations are added and the sum is normalised. The
  normalisation \<^verbatim>\<open>Angle::normalize\<close> is a parameter.
\<close>

definition Pose2f_plus :: "(real \<Rightarrow> real) \<Rightarrow> Pose2f \<Rightarrow> Pose2f \<Rightarrow> Pose2f" where
  "Pose2f_plus nrm a b =
     \<lparr>rotation = nrm (rotation a + rotation b),
      translation = add2 (rotate (translation b) (rotation a)) (translation a)\<rparr>"

text \<open>
  Two angles that differ by whole turns, and a normalisation that only ever changes an
  angle by whole turns.
\<close>

definition sameAngle :: "real \<Rightarrow> real \<Rightarrow> bool" where
  "sameAngle a b \<longleftrightarrow> (\<exists>k::int. a = b + 2 * pi * real_of_int k)"

definition wraps :: "(real \<Rightarrow> real) \<Rightarrow> bool" where
  "wraps nrm \<longleftrightarrow> (\<forall>a. sameAngle (nrm a) a)"

text \<open>
  Modelled from the spec: \<^verbatim>\<open>Angle::normalize\<close> is not among the sources and the
  specification only speaks of angle wraparound. This is the customary reduction to the
  half-open interval from \<open>-pi\<close> to \<open>pi\<close>; it serves as a concrete instance of the
  parameter.
\<close>

definition Angle_normalize :: "real \<Rightarrow> real" where
  "Angle_normalize data =
     (if - pi \<le> data \<and> data < pi then data
      else (let q = data / (2 * pi);
                n = (if 0 \<le> q then \<lfloor>q\<rfloor> else \<lceil>q\<rceil>);
                d = data - real_of_int n * (2 * pi)
            in if pi \<le> d then d - 2 * pi else if d < - pi then d + 2 * pi else d))"

subsection \<open>The simulator and the other collaborators\<close>

text \<open>A scene object is known by its full name; a body has a position (in metres) and a velocity.\<close>

datatype Object = Object (getFullName: string)

record Body =
  bodyPosition :: Vector3f
  bodyVelocity :: Vector3f

text \<open>
  Everything \<^verbatim>\<open>SimulatedRobot.cpp\<close> reads from outside itself at one call:
  \<^item> \<open>robotsPerTeam\<close>: the constant \<^verbatim>\<open>SimulatedRobot::robotsPerTeam\<close> of the class declaration;
  \<^item> \<open>toInt\<close>: \<^verbatim>\<open>QString::toInt\<close>;
  \<^item> \<open>resolveObject\<close>: the children of the compound of that name, in the order of
    \<^verbatim>\<open>getObjectChild\<close>, or \<open>None\<close> when \<^verbatim>\<open>resolveObject\<close> returns no object;
  \<^item> \<open>is2D\<close>, \<open>simStepLength\<close>: the fields of \<^verbatim>\<open>RoboCupCtrl::controller\<close>;
  \<^item> \<open>ball\<close>: the process-wide \<^verbatim>\<open>SimulatedRobot::ball\<close> with the state of its body,
    \<open>None\<close> for the null pointer;
  \<^item> \<open>getPose2f\<close>: the upright flag and the raw pose \<^verbatim>\<open>getPose2f\<close> reads for an object;
  \<^item> \<open>getRobotPose\<close>: the pose \<^verbatim>\<open>getRobotPose\<close> stores;
  \<^item> \<open>getCurrentSystemTime\<close>: \<^verbatim>\<open>Time::getCurrentSystemTime()\<close>;
  \<^item> \<open>normal\<close>: the sample \<^verbatim>\<open>Random::normal\<close> returns for a standard deviation;
  \<^item> \<open>normalize\<close>: \<^verbatim>\<open>Angle::normalize\<close>.
\<close>

record Simulation =
  robotsPerTeam :: int
  toInt :: "string \<Rightarrow> int"
  resolveObject :: "string \<Rightarrow> Object list option"
  is2D :: bool
  simStepLength :: real
  ball :: "Body option"
  getPose2f :: "Object \<Rightarrow> bool \<times> Pose2f"
  getRobotPose :: Pose2f
  getCurrentSystemTime :: "32 word"
  normal :: "real \<Rightarrow> real"
  normalize :: "real \<Rightarrow> real"

subsection \<open>Player numbers and teams\<close>

text \<open>\<^verbatim>\<open>QString::lastIndexOf\<close>: the index of the last occurrence, or -1.\<close>

definition lastIndexOf :: "string \<Rightarrow> char \<Rightarrow> int" where
  "lastIndexOf s c =
     (if c \<in> set s then int (length s) - 1 - int (length (takeWhile (\<lambda>d. d \<noteq> c) (rev s)))
      else - 1)"

text \<open>\<^verbatim>\<open>QString::remove(position, n)\<close>\<close>

definition QString_remove :: "string \<Rightarrow> int \<Rightarrow> int \<Rightarrow> string" where
  "QString_remove s position n =
     (let size = int (length s);
          pos = (if position < 0 then position + size else position)
      in if pos < 0 \<or> size \<le> pos then s
         else if size - pos \<le> n then take (nat pos) s
         else if 0 < n then take (nat pos) s @ drop (nat (pos + n)) s
         else s)"

definition getNumber :: "Simulation \<Rightarrow> Object \<Rightarrow> int" where
  "getNumber sim obj =
     (let robotNumberString = getFullName obj;
          pos = lastIndexOf robotNumberString CHR ''.''
      in toInt sim (QString_remove robotNumberString 0 (pos + 6)))"

definition isFirstTeam :: "Simulation \<Rightarrow> Object \<Rightarrow> bool" where
  "isFirstTeam sim obj \<longleftrightarrow> getNumber sim obj \<le> robotsPerTeam sim"

subsection \<open>The synchronizer and its construction\<close>

record SimulatedRobot =
  robot :: Object
  firstTeam :: bool
  robotNumber :: int
  firstTeamRobots :: "Object list"
  secondTeamRobots :: "Object list"
  lastBallPosition :: Vector3f
  lastBallTime :: "32 word"
  hadVelocity :: bool
  curveVel :: real

text \<open>
  One of the two loops of the constructor: the children of a group are appended to the
  two rosters, which are passed along.
\<close>

fun parseGroup ::
  "Simulation \<Rightarrow> int \<Rightarrow> Object list \<Rightarrow> Object list \<times> Object list \<Rightarrow> Object list \<times> Object list"
where
  "parseGroup sim rn [] rosters = rosters"
| "parseGroup sim rn (obj # objs) (first, second) =
     (let number = getNumber sim obj
      in if number \<noteq> rn then
           (if number \<le> robotsPerTeam sim then parseGroup sim rn objs (first @ [obj], second)
            else parseGroup sim rn objs (first, second @ [obj]))
         else parseGroup sim rn objs (first, second))"

text \<open>
  The constructor. \<open>None\<close> stands for the failed assertion on a null robot and for the
  dereference of a group that does not resolve.

  Modelled from the spec: the initial values of \<open>lastBallPosition\<close>, \<open>lastBallTime\<close>,
  \<open>hadVelocity\<close> and \<open>curveVel\<close> are member initialisers of the class declaration, which is
  not among the sources. The specification says that no previous sample exists on a new
  synchronizer (a previous sample exists when \<open>lastBallTime\<close> is not zero) and that a ball
  at rest carries no curve.
\<close>

definition construct :: "Simulation \<Rightarrow> Object option \<Rightarrow> SimulatedRobot option" where
  "construct sim robotPtr =
     (case robotPtr of
        None \<Rightarrow> None
      | Some rob \<Rightarrow>
          (case resolveObject sim ''RoboCup.robots'' of
             None \<Rightarrow> None
           | Some robotsGroup \<Rightarrow>
               (case resolveObject sim ''RoboCup.extras'' of
                  None \<Rightarrow> None
                | Some extrasGroup \<Rightarrow>
                    (let rn = getNumber sim rob;
                         rosters = parseGroup sim rn extrasGroup
                                     (parseGroup sim rn robotsGroup ([], []))
                     in Some \<lparr>robot = rob, firstTeam = isFirstTeam sim rob, robotNumber = rn,
                              firstTeamRobots = fst rosters, secondTeamRobots = snd rosters,
                              lastBallPosition = Zero3, lastBallTime = 0,
                              hadVelocity = False, curveVel = 0\<rparr>))))"

subsection \<open>Reading the world state\<close>

record GroundTruthPlayer =
  number :: int
  pose :: Pose2f
  upright :: bool

record GroundTruthBall =
  position :: Vector3f
  velocity :: Vector3f

record GroundTruthWorldState =
  ownTeamPlayers :: "GroundTruthPlayer list"
  opponentTeamPlayers :: "GroundTruthPlayer list"
  balls :: "GroundTruthBall list"
  ownPose :: Pose2f

text \<open>\<^verbatim>\<open>getPosition\<close> and \<^verbatim>\<open>getPosition3D\<close>: metres to millimetres.\<close>

definition getPosition :: "Simulation \<Rightarrow> Body \<Rightarrow> Vector2f" where
  "getPosition sim obj = scale2 (Vector2f (x3 (bodyPosition obj)) (y3 (bodyPosition obj))) 1000"

definition getPosition3D :: "Simulation \<Rightarrow> Body \<Rightarrow> Vector3f" where
  "getPosition3D sim obj =
     (let p = bodyPosition obj
      in Vector3f (x3 p * 1000) (y3 p * 1000) ((if is2D sim then 0 else z3 p) * 1000))"

text \<open>The position of the ball sample: lines 81 to 85 of \<^verbatim>\<open>getWorldState\<close>.\<close>

definition ballSamplePosition :: "Simulation \<Rightarrow> SimulatedRobot \<Rightarrow> Body \<Rightarrow> Vector3f" where
  "ballSamplePosition sim r b =
     (let p0 = getPosition3D sim b;
          p1 = (if is2D sim then Vector3f (x3 p0) (y3 p0) 50 else p0)
      in if firstTeam r then Vector3f (x3 p1 * (- 1)) (y3 p1 * (- 1)) (z3 p1) else p1)"

text \<open>
  The curve injection of the 3D simulation: lines 93 to 103. The result is the new curve
  angle, the ball with the velocity that \<^verbatim>\<open>setVelocity\<close> wrote, and the standard
  deviations \<^verbatim>\<open>Random::normal\<close> was called with.
\<close>

definition curveInjection ::
  "Simulation \<Rightarrow> SimulatedRobot \<Rightarrow> Body \<Rightarrow> Vector3f \<Rightarrow> real \<Rightarrow> real \<times> Body \<times> real list"
where
  "curveInjection sim r b v elapsed =
     (let velo = bodyVelocity b;
          roll = (\<not> hadVelocity r \<and> head2 v \<noteq> Zero2);
          sigma = 0.015 * elapsed / 1000;
          c1 = (if roll then normal sim sigma else curveVel r);
          c2 = (if head2 v = Zero2 then 0 else c1);
          direct = rotate (head2 velo) c2
      in (c2, b\<lparr>bodyVelocity := Vector3f (x2 direct) (y2 direct) (z3 velo)\<rparr>,
          if roll then [sigma] else []))"

text \<open>
  The body of \<^verbatim>\<open>if(ball)\<close>: the ball sample, the synchronizer with its hidden state
  updated, the ball as the simulator holds it afterwards, and the calls of
  \<^verbatim>\<open>Random::normal\<close>.
\<close>

definition readBall ::
  "Simulation \<Rightarrow> SimulatedRobot \<Rightarrow> Body \<Rightarrow> GroundTruthBall \<times> SimulatedRobot \<times> Body \<times> real list"
where
  "readBall sim r b =
     (let p = ballSamplePosition sim r b;
          currentTime = getCurrentSystemTime sim;
          (v, c, b', draws) =
            (if lastBallTime r \<noteq> 0 \<and> lastBallTime r \<noteq> currentTime then
               (let elapsed = real (unat (currentTime - lastBallTime r));
                    v = div3 (scale3 1000 (sub3 p (lastBallPosition r))) elapsed
                in if \<not> is2D sim then
                     (let (c, b', draws) = curveInjection sim r b v elapsed
                      in (v, c, b', draws))
                   else (v, curveVel r, b, []))
             else (Zero3, curveVel r, b, []))
      in (\<lparr>position = p, velocity = v\<rparr>,
          r\<lparr>lastBallPosition := p, lastBallTime := currentTime,
            hadVelocity := (head2 v \<noteq> Zero2), curveVel := c\<rparr>,
          b', draws))"

text \<open>The bodies of the two loops over the rosters.\<close>

definition firstTeamPlayer :: "Simulation \<Rightarrow> SimulatedRobot \<Rightarrow> Object \<Rightarrow> GroundTruthPlayer" where
  "firstTeamPlayer sim r obj =
     (let (up, p) = getPose2f sim obj
      in \<lparr>number = getNumber sim obj,
          pose = (if firstTeam r then Pose2f_plus (normalize sim) (Pose2f_rot pi) p else p),
          upright = up\<rparr>)"

definition secondTeamPlayer :: "Simulation \<Rightarrow> SimulatedRobot \<Rightarrow> Object \<Rightarrow> GroundTruthPlayer" where
  "secondTeamPlayer sim r obj =
     (let (up, p) = getPose2f sim obj
      in \<lparr>number = getNumber sim obj - robotsPerTeam sim,
          pose = (if firstTeam r then Pose2f_plus (normalize sim) (Pose2f_rot pi) p else p),
          upright = up\<rparr>)"

text \<open>
  One call of \<^verbatim>\<open>getWorldState\<close>: the snapshot, the synchronizer afterwards, the ball of
  the simulator afterwards, and the standard deviations of the calls of
  \<^verbatim>\<open>Random::normal\<close>.
\<close>

record WorldStateCall =
  worldState :: GroundTruthWorldState
  robotAfter :: SimulatedRobot
  ballAfter :: "Body option"
  normalCalls :: "real list"

definition getWorldState :: "Simulation \<Rightarrow> SimulatedRobot \<Rightarrow> WorldStateCall" where
  "getWorldState sim r =
     (let (bs, r', b', draws) =
            (case ball sim of
               None \<Rightarrow> ([], r, None, [])
             | Some b \<Rightarrow>
                 (let (gtBall, r', b', draws) = readBall sim r b
                  in ([gtBall], r', Some b', draws)));
          firstTeamPlayers = map (firstTeamPlayer sim r) (firstTeamRobots r);
          secondTeamPlayers = map (secondTeamPlayer sim r) (secondTeamRobots r)
      in \<lparr>worldState =
            \<lparr>ownTeamPlayers = (if firstTeam r then firstTeamPlayers else secondTeamPlayers),
             opponentTeamPlayers = (if firstTeam r then secondTeamPlayers else firstTeamPlayers),
             balls = bs,
             ownPose = getRobotPose sim\<rparr>,
          robotAfter = r', ballAfter = b', normalCalls = draws\<rparr>)"

text \<open>Successive calls: each call meets the simulator as it is at that tick.\<close>

fun getWorldStates :: "SimulatedRobot \<Rightarrow> Simulation list \<Rightarrow> WorldStateCall list" where
  "getWorldStates r [] = []"
| "getWorldStates r (sim # sims) =
     (let c = getWorldState sim r in c # getWorldStates (robotAfter c) sims)"

text \<open>The horizontal part of the velocity of the reported ball sample, when there is one.\<close>

definition estimatedHorizontalVelocity :: "WorldStateCall \<Rightarrow> Vector2f option" where
  "estimatedHorizontalVelocity c =
     (case balls (worldState c) of
        [] \<Rightarrow> None
      | gtBall # _ \<Rightarrow> Some (head2 (velocity gtBall)))"

subsection \<open>Odometry, placement and friction\<close>

definition getOdometryData :: "Simulation \<Rightarrow> SimulatedRobot \<Rightarrow> Pose2f \<Rightarrow> Pose2f" where
  "getOdometryData sim r robotPose =
     (if firstTeam r then Pose2f_plus (normalize sim) (Pose2f_rot pi) robotPose else robotPose)"

text \<open>
  \<^verbatim>\<open>moveRobotPerTeam\<close> and \<^verbatim>\<open>moveBallPerTeam\<close>: the arguments they hand to
  \<^verbatim>\<open>moveRobot\<close> and \<^verbatim>\<open>moveBall\<close>.
\<close>

definition moveRobotPerTeam ::
  "Simulation \<Rightarrow> SimulatedRobot \<Rightarrow> Vector3f \<Rightarrow> Vector3f \<Rightarrow> bool \<Rightarrow> bool
     \<Rightarrow> Vector3f \<times> Vector3f \<times> bool \<times> bool"
where
  "moveRobotPerTeam sim r pos rot changeRotation resetDynamics =
     ((if firstTeam r then Vector3f (- x3 pos) (- y3 pos) (z3 pos) else pos),
      (if firstTeam r then Vector3f (x3 rot) (y3 rot) (normalize sim (z3 rot + pi)) else rot),
      changeRotation, resetDynamics)"

definition moveBallPerTeam ::
  "SimulatedRobot \<Rightarrow> Vector3f \<Rightarrow> bool \<Rightarrow> Vector3f \<times> bool"
where
  "moveBallPerTeam r pos resetDynamics =
     ((if firstTeam r then Vector3f (- x3 pos) (- y3 pos) (z3 pos) else pos), resetDynamics)"

text \<open>\<^verbatim>\<open>getAbsoluteBallPosition\<close>: the returned flag and the reference parameter afterwards.\<close>

definition getAbsoluteBallPosition :: "Simulation \<Rightarrow> Vector2f \<Rightarrow> bool \<times> Vector2f" where
  "getAbsoluteBallPosition sim ballPosition =
     (case ball sim of
        None \<Rightarrow> (False, ballPosition)
      | Some b \<Rightarrow> (True, getPosition sim b))"

text \<open>\<^verbatim>\<open>applyBallFriction\<close>: the ball of the simulator afterwards.\<close>

definition applyBallFriction :: "Simulation \<Rightarrow> real \<Rightarrow> Body option" where
  "applyBallFriction sim friction =
     (case ball sim of
        None \<Rightarrow> None
      | Some b \<Rightarrow>
          if \<not> is2D sim then Some b
          else (let ballVelocity = head2 (bodyVelocity b);
                    ballSpeed = norm2 ballVelocity;
                    newBallSpeed = ballSpeed + friction * simStepLength sim / 1000;
                    ballVelocity' = (if newBallSpeed \<le> 0 then Zero2
                                     else scale2 ballVelocity (newBallSpeed / ballSpeed))
                in Some (b\<lparr>bodyVelocity :=
                            Vector3f (x2 ballVelocity') (y2 ballVelocity') (z3 (bodyVelocity b))\<rparr>)))"

subsection \<open>A concrete scene\<close>

text \<open>
  \<^verbatim>\<open>QString::toInt\<close> on the names of the scenes below: a non-empty string of decimal
  digits is its value, and a conversion that fails gives 0.
\<close>

definition decimalToInt :: "string \<Rightarrow> int" where
  "decimalToInt s =
     (if s \<noteq> [] \<and> list_all (\<lambda>c. 48 \<le> (of_char c :: nat) \<and> (of_char c :: nat) \<le> 57) s
      then foldl (\<lambda>n c. 10 * n + (int (of_char c) - 48)) 0 s
      else 0)"

text \<open>
  Five robots per team. The first team has the numbers 1 to 3, the second team the numbers
  6, 7 and 10. Every robot stands at \<open>x = 1000\<close>, \<open>y = 0\<close> and looks along the x axis;
  the ball lies on the centre mark.
\<close>

definition exampleScene :: "string \<Rightarrow> Object list option" where
  "exampleScene name =
     (if name = ''RoboCup.robots''
      then Some [Object ''RoboCup.robots.robot1'', Object ''RoboCup.robots.robot2'',
                 Object ''RoboCup.robots.robot6'', Object ''RoboCup.robots.robot7'']
      else if name = ''RoboCup.extras''
      then Some [Object ''RoboCup.extras.robot3'', Object ''RoboCup.extras.robot10'']
      else None)"

definition exampleSimulation :: Simulation where
  "exampleSimulation =
     \<lparr>robotsPerTeam = 5, toInt = decimalToInt, resolveObject = exampleScene,
      is2D = False, simStepLength = 10,
      ball = Some \<lparr>bodyPosition = Vector3f 0 0 0.05, bodyVelocity = Vector3f 0 0 0\<rparr>,
      getPose2f = (\<lambda>obj. (True, \<lparr>rotation = 0, translation = Vector2f 1000 0\<rparr>)),
      getRobotPose = \<lparr>rotation = 0, translation = Vector2f 1000 0\<rparr>,
      getCurrentSystemTime = 1000,
      normal = (\<lambda>sigma. sigma),
      normalize = Angle_normalize\<rparr>"

text \<open>The synchronizers of robot 1 (first team) and of robot 6 (second team) in that scene.\<close>

definition robot1 :: SimulatedRobot where
  "robot1 =
     \<lparr>robot = Object ''RoboCup.robots.robot1'', firstTeam = True, robotNumber = 1,
      firstTeamRobots = [Object ''RoboCup.robots.robot2'', Object ''RoboCup.extras.robot3''],
      secondTeamRobots = [Object ''RoboCup.robots.robot6'', Object ''RoboCup.robots.robot7'',
                          Object ''RoboCup.extras.robot10''],
      lastBallPosition = Zero3, lastBallTime = 0, hadVelocity = False, curveVel = 0\<rparr>"

definition robot6 :: SimulatedRobot where
  "robot6 =
     \<lparr>robot = Object ''RoboCup.robots.robot6'', firstTeam = False, robotNumber = 6,
      firstTeamRobots = [Object ''RoboCup.robots.robot1'', Object ''RoboCup.robots.robot2'',
                         Object ''RoboCup.extras.robot3''],
      secondTeamRobots = [Object ''RoboCup.robots.robot7'', Object ''RoboCup.extras.robot10''],
      lastBallPosition = Zero3, lastBallTime = 0, hadVelocity = False, curveVel = 0\<rparr>"

text \<open>
  The same scene with the robots scattered: robot 2 and robot 10 stand at \<open>x = 1000\<close>,
  \<open>y = 0\<close> and look along the x axis, all others lie elsewhere.
\<close>

definition scatteredRobots :: Simulation where
  "scatteredRobots =
     exampleSimulation
       \<lparr>getPose2f := (\<lambda>obj.
          if obj = Object ''RoboCup.robots.robot2'' \<or> obj = Object ''RoboCup.extras.robot10''
          then (True, \<lparr>rotation = 0, translation = Vector2f 1000 0\<rparr>)
          else (False, \<lparr>rotation = 1, translation = Vector2f 0 500\<rparr>))\<rparr>"

text \<open>
  The simulator at successive ticks: the ball lies \<open>x\<close> metres from the centre mark at
  time \<open>t\<close>. In \<open>rollingBall\<close> the ball starts to roll and keeps rolling; in
  \<open>restingBall\<close> it has stopped at the third tick; in \<open>sameTick\<close> the third call falls
  into the millisecond of the second one.
\<close>

definition ballAt :: "real \<Rightarrow> 32 word \<Rightarrow> Simulation" where
  "ballAt x t =
     exampleSimulation
       \<lparr>ball := Some \<lparr>bodyPosition = Vector3f x 0 0.05, bodyVelocity = Vector3f 1 0 0\<rparr>,
        getCurrentSystemTime := t\<rparr>"

definition rollingBall :: "Simulation list" where
  "rollingBall = [ballAt 0 1000, ballAt 0.01 1010, ballAt 0.02 1020]"

definition sameTick :: "Simulation list" where
  "sameTick = [ballAt 0 1000, ballAt 0.01 1010, ballAt 0.01 1010]"

definition restingBall :: "Simulation list" where
  "restingBall = [ballAt 0 1000, ballAt 0.01 1010, ballAt 0.01 1020]"

text \<open>
  Modelled from the spec: \<^verbatim>\<open>moveRobot\<close> is not among the sources. The specification says
  that a placement command carries the target position and the target rotation with the
  yaw as its third component, so this is the raw pose that the arguments handed on by
  \<open>moveRobotPerTeam\<close> describe: the horizontal part of the position and the yaw.
\<close>

definition placedPose :: "Vector3f \<times> Vector3f \<times> bool \<times> bool \<Rightarrow> Pose2f" where
  "placedPose args = (case args of (pos, rot, _, _) \<Rightarrow> \<lparr>rotation = z3 rot, translation = head2 pos\<rparr>)"

text \<open>The 2D simulation with a ball of speed 5.\<close>

definition flatBall :: Simulation where
  "flatBall =
     exampleSimulation
       \<lparr>is2D := True,
        ball := Some \<lparr>bodyPosition = Vector3f 1 0 0, bodyVelocity = Vector3f 3 4 0\<rparr>\<rparr>"

section \<open>Properties\<close>

text \<open>
  C6: after a call of \<open>getWorldState\<close> the list of balls of the snapshot has exactly one
  entry when a ball is registered and is empty when none is; the call yields a snapshot in
  both cases.
\<close>

theorem C6_balls_one_or_none:
  "length (balls (worldState (getWorldState sim r))) = (if ball sim = None then 0 else 1)"
  by (simp add: getWorldState_def Let_def split: option.split prod.split)

subsection \<open>The concrete scene, evaluated\<close>

lemmas example_defs = exampleSimulation_def exampleScene_def decimalToInt_def
lemmas number_defs = getNumber_def lastIndexOf_def QString_remove_def

lemma construct_robot1:
  "construct exampleSimulation (Some (Object ''RoboCup.robots.robot1'')) = Some robot1"
  by (simp add: construct_def isFirstTeam_def robot1_def Zero3_def example_defs number_defs)

lemma construct_robot6:
  "construct exampleSimulation (Some (Object ''RoboCup.robots.robot6'')) = Some robot6"
  by (simp add: construct_def isFirstTeam_def robot6_def Zero3_def example_defs number_defs)

subsection \<open>The ball sample\<close>

lemma elapsed_nonzero:
  fixes t l :: "32 word"
  shows "l \<noteq> t \<Longrightarrow> 1 \<le> real (unat (t - l))"
  by (metis One_nat_def Suc_leI of_nat_1 of_nat_le_iff right_minus_eq unat_gt_0)

lemma balls_getWorldState:
  "ball sim = Some b \<Longrightarrow>
   balls (worldState (getWorldState sim r)) = [fst (readBall sim r b)]"
  by (simp add: getWorldState_def Let_def split: prod.split)

lemma velocity_readBall:
  "fst (readBall sim r b) =
     \<lparr>position = ballSamplePosition sim r b,
      velocity =
        (if lastBallTime r \<noteq> 0 \<and> lastBallTime r \<noteq> getCurrentSystemTime sim
         then div3 (scale3 1000 (sub3 (ballSamplePosition sim r b) (lastBallPosition r)))
                (real (unat (getCurrentSystemTime sim - lastBallTime r)))
         else Zero3)\<rparr>"
  by (simp add: readBall_def Let_def split: prod.split)

text \<open>
  C1: with a ball registered, the reported velocity is
  \<open>1000 * (position - lastBallPosition) / (currentTime - lastBallTime)\<close> when a previous
  sample exists (\<open>lastBallTime\<close> is not zero) and its time differs from the current time,
  and the zero vector otherwise; the divisor is at least one whenever the times differ.
\<close>

theorem C1_ball_velocity:
  assumes "ball sim = Some b"
  shows "balls (worldState (getWorldState sim r)) =
           [\<lparr>position = ballSamplePosition sim r b,
             velocity =
               (if lastBallTime r \<noteq> 0 \<and> lastBallTime r \<noteq> getCurrentSystemTime sim
                then div3 (scale3 1000 (sub3 (ballSamplePosition sim r b) (lastBallPosition r)))
                       (real (unat (getCurrentSystemTime sim - lastBallTime r)))
                else Zero3)\<rparr>] \<and>
         (lastBallTime r \<noteq> getCurrentSystemTime sim \<longrightarrow>
            1 \<le> real (unat (getCurrentSystemTime sim - lastBallTime r)))"
proof (intro conjI impI)
  show "balls (worldState (getWorldState sim r)) =
           [\<lparr>position = ballSamplePosition sim r b,
             velocity =
               (if lastBallTime r \<noteq> 0 \<and> lastBallTime r \<noteq> getCurrentSystemTime sim
                then div3 (scale3 1000 (sub3 (ballSamplePosition sim r b) (lastBallPosition r)))
                       (real (unat (getCurrentSystemTime sim - lastBallTime r)))
                else Zero3)\<rparr>]"
    using assms by (simp only: balls_getWorldState velocity_readBall)
next
  assume "lastBallTime r \<noteq> getCurrentSystemTime sim"
  then show "1 \<le> real (unat (getCurrentSystemTime sim - lastBallTime r))"
    by (rule elapsed_nonzero)
qed

theorem C1_ball_velocity_witness:
  "ball (exampleSimulation\<lparr>getCurrentSystemTime := 1010\<rparr>) =
     Some \<lparr>bodyPosition = Vector3f 0 0 0.05, bodyVelocity = Vector3f 0 0 0\<rparr> \<and>
   balls (worldState (getWorldState (exampleSimulation\<lparr>getCurrentSystemTime := 1010\<rparr>)
       (robot6\<lparr>lastBallPosition := Vector3f (- 20) 10 50, lastBallTime := 1000\<rparr>))) =
     [\<lparr>position = Vector3f 0 0 50, velocity = Vector3f 2000 (- 1000) 0\<rparr>] \<and>
   (1010 :: 32 word) \<noteq> 1000 \<and>
   1 \<le> real (unat ((1010 :: 32 word) - 1000))"
  using C1_ball_velocity [of "exampleSimulation\<lparr>getCurrentSystemTime := 1010\<rparr>"
      "\<lparr>bodyPosition = Vector3f 0 0 0.05, bodyVelocity = Vector3f 0 0 0\<rparr>"
      "robot6\<lparr>lastBallPosition := Vector3f (- 20) 10 50, lastBallTime := 1000\<rparr>"]
  by (simp add: exampleSimulation_def robot6_def ballSamplePosition_def getPosition3D_def
      div3_def scale3_def sub3_def)

text \<open>
  C10: \<open>getAbsoluteBallPosition\<close> returns true exactly when a ball is registered, and
  leaves \<open>ballPosition\<close> as it was when it returns false.
\<close>

theorem C10_ball_position:
  "fst (getAbsoluteBallPosition sim ballPosition) = (ball sim \<noteq> None) \<and>
   (\<not> fst (getAbsoluteBallPosition sim ballPosition) \<longrightarrow>
      snd (getAbsoluteBallPosition sim ballPosition) = ballPosition)"
  by (simp add: getAbsoluteBallPosition_def split: option.split)

theorem C10_ball_position_witness:
  "\<not> fst (getAbsoluteBallPosition (exampleSimulation\<lparr>ball := None\<rparr>) (Vector2f 7 8)) \<and>
   snd (getAbsoluteBallPosition (exampleSimulation\<lparr>ball := None\<rparr>) (Vector2f 7 8)) = Vector2f 7 8"
  using C10_ball_position [of "exampleSimulation\<lparr>ball := None\<rparr>" "Vector2f 7 8"]
  by (simp add: exampleSimulation_def)

subsection \<open>The players\<close>

lemma players_getWorldState:
  "(if firstTeam r then ownTeamPlayers (worldState (getWorldState sim r))
    else opponentTeamPlayers (worldState (getWorldState sim r))) =
     map (firstTeamPlayer sim r) (firstTeamRobots r)"
  "(if firstTeam r then opponentTeamPlayers (worldState (getWorldState sim r))
    else ownTeamPlayers (worldState (getWorldState sim r))) =
     map (secondTeamPlayer sim r) (secondTeamRobots r)"
  by (simp_all add: getWorldState_def Let_def split: prod.split)

lemma number_firstTeamPlayer: "number (firstTeamPlayer sim r obj) = getNumber sim obj"
  by (simp add: firstTeamPlayer_def split: prod.split)

lemma number_secondTeamPlayer:
  "number (secondTeamPlayer sim r obj) = getNumber sim obj - robotsPerTeam sim"
  by (simp add: secondTeamPlayer_def split: prod.split)

text \<open>
  C7: in every snapshot the numbers of the second team are the parsed numbers minus
  \<open>robotsPerTeam\<close>, so they lie between 1 and \<open>robotsPerTeam\<close> when the parsed numbers
  lie between \<open>robotsPerTeam + 1\<close> and \<open>2 * robotsPerTeam\<close>; the numbers of the first team
  are the parsed numbers.
\<close>

theorem C7_player_numbers:
  "map number (if firstTeam r then opponentTeamPlayers (worldState (getWorldState sim r))
               else ownTeamPlayers (worldState (getWorldState sim r))) =
     map (\<lambda>obj. getNumber sim obj - robotsPerTeam sim) (secondTeamRobots r) \<and>
   map number (if firstTeam r then ownTeamPlayers (worldState (getWorldState sim r))
               else opponentTeamPlayers (worldState (getWorldState sim r))) =
     map (getNumber sim) (firstTeamRobots r) \<and>
   ((\<forall>obj \<in> set (secondTeamRobots r).
        robotsPerTeam sim + 1 \<le> getNumber sim obj \<and> getNumber sim obj \<le> 2 * robotsPerTeam sim) \<longrightarrow>
    (\<forall>p \<in> set (if firstTeam r then opponentTeamPlayers (worldState (getWorldState sim r))
                 else ownTeamPlayers (worldState (getWorldState sim r))).
        1 \<le> number p \<and> number p \<le> robotsPerTeam sim))"
  unfolding players_getWorldState
  by (auto simp: number_firstTeamPlayer number_secondTeamPlayer)

theorem C7_player_numbers_witness:
  "map (getNumber exampleSimulation) (secondTeamRobots robot1) = [6, 7, 10] \<and>
   robotsPerTeam exampleSimulation = 5 \<and>
   map number (opponentTeamPlayers (worldState (getWorldState exampleSimulation robot1))) = [1, 2, 5] \<and>
   map number (ownTeamPlayers (worldState (getWorldState exampleSimulation robot1))) = [2, 3] \<and>
   list_all (\<lambda>p. 1 \<le> number p \<and> number p \<le> 5)
     (opponentTeamPlayers (worldState (getWorldState exampleSimulation robot1)))"
  using C7_player_numbers [of robot1 exampleSimulation]
  by (simp add: robot1_def example_defs number_defs list_all_iff)

subsection \<open>The rosters\<close>

lemma parseGroup_filter:
  "parseGroup sim rn objs (first, second) =
     (first @ filter (\<lambda>obj. getNumber sim obj \<noteq> rn \<and> getNumber sim obj \<le> robotsPerTeam sim) objs,
      second @ filter (\<lambda>obj. getNumber sim obj \<noteq> rn \<and> \<not> getNumber sim obj \<le> robotsPerTeam sim) objs)"
  by (induction objs arbitrary: first second) (simp_all add: Let_def)

lemma construct_rosters:
  assumes "resolveObject sim ''RoboCup.robots'' = Some robotsGroup"
      and "resolveObject sim ''RoboCup.extras'' = Some extrasGroup"
  shows "\<exists>r. construct sim (Some rob) = Some r \<and>
           firstTeamRobots r =
             filter (\<lambda>obj. getNumber sim obj \<noteq> getNumber sim rob \<and>
                           getNumber sim obj \<le> robotsPerTeam sim) (robotsGroup @ extrasGroup) \<and>
           secondTeamRobots r =
             filter (\<lambda>obj. getNumber sim obj \<noteq> getNumber sim rob \<and>
                           \<not> getNumber sim obj \<le> robotsPerTeam sim) (robotsGroup @ extrasGroup)"
  using assms by (simp add: construct_def Let_def parseGroup_filter)

text \<open>
  The constructor leaves a child out by its number: a child is in exactly one roster when
  its number differs from the number of the owning robot, and in none otherwise.
\<close>

lemma rosters_by_number:
  assumes "resolveObject sim ''RoboCup.robots'' = Some robotsGroup"
      and "resolveObject sim ''RoboCup.extras'' = Some extrasGroup"
  shows "\<exists>r. construct sim (Some rob) = Some r \<and>
           (\<forall>obj \<in> set (robotsGroup @ extrasGroup).
              if getNumber sim obj = getNumber sim rob
              then obj \<notin> set (firstTeamRobots r) \<and> obj \<notin> set (secondTeamRobots r)
              else if getNumber sim obj \<le> robotsPerTeam sim
              then obj \<in> set (firstTeamRobots r) \<and> obj \<notin> set (secondTeamRobots r)
              else obj \<notin> set (firstTeamRobots r) \<and> obj \<in> set (secondTeamRobots r)) \<and>
           set (firstTeamRobots r) \<union> set (secondTeamRobots r) \<subseteq> set (robotsGroup @ extrasGroup) \<and>
           rob \<notin> set (firstTeamRobots r) \<and> rob \<notin> set (secondTeamRobots r)"
proof -
  from construct_rosters [OF assms, of rob] obtain r where
    c: "construct sim (Some rob) = Some r" and
    f: "firstTeamRobots r =
          filter (\<lambda>obj. getNumber sim obj \<noteq> getNumber sim rob \<and>
                        getNumber sim obj \<le> robotsPerTeam sim) (robotsGroup @ extrasGroup)" and
    s: "secondTeamRobots r =
          filter (\<lambda>obj. getNumber sim obj \<noteq> getNumber sim rob \<and>
                        \<not> getNumber sim obj \<le> robotsPerTeam sim) (robotsGroup @ extrasGroup)"
    by blast
  show ?thesis
    by (rule exI [of _ r]) (auto simp: c f s)
qed

text \<open>
  C9: in a scene in which no other child of the two groups carries the number of the owning
  robot (player numbers are unique), the constructor returns a synchronizer in which every
  child of the groups \<open>RoboCup.robots\<close> and \<open>RoboCup.extras\<close> except the owning robot is in
  exactly one roster, the first when its parsed number is at most \<open>robotsPerTeam\<close> and the
  second otherwise; the owning robot is in neither roster, and the rosters hold children of
  the two groups only.
\<close>

theorem C9_rosters:
  assumes robots: "resolveObject sim ''RoboCup.robots'' = Some robotsGroup"
      and extras: "resolveObject sim ''RoboCup.extras'' = Some extrasGroup"
      and unique: "\<forall>obj \<in> set (robotsGroup @ extrasGroup).
                     getNumber sim obj = getNumber sim rob \<longrightarrow> obj = rob"
  shows "\<exists>r. construct sim (Some rob) = Some r \<and>
           (\<forall>obj \<in> set (robotsGroup @ extrasGroup).
              obj \<noteq> rob \<longrightarrow>
                (if getNumber sim obj \<le> robotsPerTeam sim
                 then obj \<in> set (firstTeamRobots r) \<and> obj \<notin> set (secondTeamRobots r)
                 else obj \<notin> set (firstTeamRobots r) \<and> obj \<in> set (secondTeamRobots r))) \<and>
           set (firstTeamRobots r) \<union> set (secondTeamRobots r) \<subseteq> set (robotsGroup @ extrasGroup) \<and>
           rob \<notin> set (firstTeamRobots r) \<and> rob \<notin> set (secondTeamRobots r)"
proof -
  from rosters_by_number [OF robots extras, of rob] obtain r where
    c: "construct sim (Some rob) = Some r" and
    each: "\<forall>obj \<in> set (robotsGroup @ extrasGroup).
              if getNumber sim obj = getNumber sim rob
              then obj \<notin> set (firstTeamRobots r) \<and> obj \<notin> set (secondTeamRobots r)
              else if getNumber sim obj \<le> robotsPerTeam sim
              then obj \<in> set (firstTeamRobots r) \<and> obj \<notin> set (secondTeamRobots r)
              else obj \<notin> set (firstTeamRobots r) \<and> obj \<in> set (secondTeamRobots r)" and
    rest: "set (firstTeamRobots r) \<union> set (secondTeamRobots r) \<subseteq> set (robotsGroup @ extrasGroup)"
          "rob \<notin> set (firstTeamRobots r)" "rob \<notin> set (secondTeamRobots r)"
    by blast
  have "if getNumber sim obj \<le> robotsPerTeam sim
        then obj \<in> set (firstTeamRobots r) \<and> obj \<notin> set (secondTeamRobots r)
        else obj \<notin> set (firstTeamRobots r) \<and> obj \<in> set (secondTeamRobots r)"
    if "obj \<in> set (robotsGroup @ extrasGroup)" and "obj \<noteq> rob" for obj
  proof -
    from that unique have "getNumber sim obj \<noteq> getNumber sim rob"
      by blast
    with each that(1) show ?thesis
      by (auto split: if_splits)
  qed
  with c rest show ?thesis
    by blast
qed

theorem C9_rosters_witness:
  "resolveObject exampleSimulation ''RoboCup.robots'' =
     Some [Object ''RoboCup.robots.robot1'', Object ''RoboCup.robots.robot2'',
           Object ''RoboCup.robots.robot6'', Object ''RoboCup.robots.robot7''] \<and>
   resolveObject exampleSimulation ''RoboCup.extras'' =
     Some [Object ''RoboCup.extras.robot3'', Object ''RoboCup.extras.robot10''] \<and>
   map (getNumber exampleSimulation)
     [Object ''RoboCup.robots.robot1'', Object ''RoboCup.robots.robot2'',
      Object ''RoboCup.robots.robot6'', Object ''RoboCup.robots.robot7'',
      Object ''RoboCup.extras.robot3'', Object ''RoboCup.extras.robot10''] = [1, 2, 6, 7, 3, 10] \<and>
   robotsPerTeam exampleSimulation = 5 \<and>
   map_option firstTeamRobots (construct exampleSimulation (Some (Object ''RoboCup.robots.robot1''))) =
     Some [Object ''RoboCup.robots.robot2'', Object ''RoboCup.extras.robot3''] \<and>
   map_option secondTeamRobots (construct exampleSimulation (Some (Object ''RoboCup.robots.robot1''))) =
     Some [Object ''RoboCup.robots.robot6'', Object ''RoboCup.robots.robot7'',
           Object ''RoboCup.extras.robot10'']"
  using C9_rosters [of exampleSimulation
      "[Object ''RoboCup.robots.robot1'', Object ''RoboCup.robots.robot2'',
        Object ''RoboCup.robots.robot6'', Object ''RoboCup.robots.robot7'']"
      "[Object ''RoboCup.extras.robot3'', Object ''RoboCup.extras.robot10'']"
      "Object ''RoboCup.robots.robot1''"]
  by (simp add: construct_robot1 robot1_def) (simp add: example_defs number_defs)

subsection \<open>The hidden state of the ball and the curve\<close>

lemma head2_Zero3: "head2 Zero3 = Zero2"
  by (simp add: head2_def Zero3_def Zero2_def)

text \<open>What one call does to the hidden state, with a ball registered.\<close>

lemma readBall_hidden:
  "hadVelocity (fst (snd (readBall sim r b))) \<longleftrightarrow> head2 (velocity (fst (readBall sim r b))) \<noteq> Zero2"
  "lastBallTime (fst (snd (readBall sim r b))) = getCurrentSystemTime sim"
  "lastBallPosition (fst (snd (readBall sim r b))) = position (fst (readBall sim r b))"
  by (simp_all add: readBall_def Let_def split: prod.split)

lemma readBall_draws:
  "\<not> is2D sim \<Longrightarrow>
   snd (snd (snd (readBall sim r b))) =
     (if \<not> hadVelocity r \<and> head2 (velocity (fst (readBall sim r b))) \<noteq> Zero2
      then [0.015 * real (unat (getCurrentSystemTime sim - lastBallTime r)) / 1000]
      else [])"
  by (simp add: readBall_def curveInjection_def Let_def head2_Zero3 split: prod.split)

lemma readBall_curveVel:
  "\<not> is2D sim \<Longrightarrow>
   curveVel (fst (snd (readBall sim r b))) =
     (if lastBallTime r \<noteq> 0 \<and> lastBallTime r \<noteq> getCurrentSystemTime sim
      then (if head2 (velocity (fst (readBall sim r b))) = Zero2 then 0
            else if \<not> hadVelocity r
            then normal sim (0.015 * real (unat (getCurrentSystemTime sim - lastBallTime r)) / 1000)
            else curveVel r)
      else curveVel r)"
  by (simp add: readBall_def curveInjection_def Let_def head2_Zero3 split: prod.split)

lemma readBall_no_estimate:
  "\<not> (lastBallTime r \<noteq> 0 \<and> lastBallTime r \<noteq> getCurrentSystemTime sim) \<Longrightarrow>
   velocity (fst (readBall sim r b)) = Zero3"
  by (auto simp: velocity_readBall)

lemma getWorldState_ball:
  "ball sim = Some b \<Longrightarrow> robotAfter (getWorldState sim r) = fst (snd (readBall sim r b))"
  "ball sim = Some b \<Longrightarrow> normalCalls (getWorldState sim r) = snd (snd (snd (readBall sim r b)))"
  "ball sim = Some b \<Longrightarrow>
     estimatedHorizontalVelocity (getWorldState sim r) =
       Some (head2 (velocity (fst (readBall sim r b))))"
  by (simp_all add: getWorldState_def estimatedHorizontalVelocity_def Let_def split: prod.split)

lemma call_hadVelocity:
  "ball sim \<noteq> None \<Longrightarrow>
   hadVelocity (robotAfter (getWorldState sim r)) \<longleftrightarrow>
     estimatedHorizontalVelocity (getWorldState sim r) \<noteq> Some Zero2"
  by (auto simp: getWorldState_ball readBall_hidden)

lemma call_lastBallTime:
  "ball sim \<noteq> None \<Longrightarrow>
   lastBallTime (robotAfter (getWorldState sim r)) = getCurrentSystemTime sim"
  by (auto simp: getWorldState_ball readBall_hidden)

lemma call_normalCalls:
  "ball sim \<noteq> None \<Longrightarrow> \<not> is2D sim \<Longrightarrow>
   normalCalls (getWorldState sim r) =
     (if \<not> hadVelocity r \<and> estimatedHorizontalVelocity (getWorldState sim r) \<noteq> Some Zero2
      then [0.015 * real (unat (getCurrentSystemTime sim - lastBallTime r)) / 1000]
      else [])"
  by (auto simp: getWorldState_ball readBall_draws)

lemma call_curveVel:
  "ball sim \<noteq> None \<Longrightarrow> \<not> is2D sim \<Longrightarrow>
   curveVel (robotAfter (getWorldState sim r)) =
     (if lastBallTime r \<noteq> 0 \<and> lastBallTime r \<noteq> getCurrentSystemTime sim
      then (if estimatedHorizontalVelocity (getWorldState sim r) = Some Zero2 then 0
            else if \<not> hadVelocity r
            then normal sim (0.015 * real (unat (getCurrentSystemTime sim - lastBallTime r)) / 1000)
            else curveVel r)
      else curveVel r)"
  by (auto simp: getWorldState_ball readBall_curveVel)

lemma call_no_estimate:
  "ball sim \<noteq> None \<Longrightarrow>
   \<not> (lastBallTime r \<noteq> 0 \<and> lastBallTime r \<noteq> getCurrentSystemTime sim) \<Longrightarrow>
   estimatedHorizontalVelocity (getWorldState sim r) = Some Zero2"
  by (auto simp: getWorldState_ball readBall_no_estimate head2_Zero3)

lemma length_getWorldStates: "length (getWorldStates r sims) = length sims"
  by (induction sims arbitrary: r) (simp_all add: Let_def)

lemma getWorldStates_nth:
  "i < length sims \<Longrightarrow> \<exists>r'. getWorldStates r sims ! i = getWorldState (sims ! i) r'"
proof (induction sims arbitrary: r i)
  case Nil
  then show ?case by simp
next
  case (Cons sim sims)
  show ?case
  proof (cases i)
    case 0
    then show ?thesis by (auto simp: Let_def)
  next
    case (Suc j)
    with Cons.prems have "j < length sims" by simp
    from Cons.IH [OF this] Suc show ?thesis by (simp add: Let_def)
  qed
qed

lemma getWorldStates_Suc:
  "Suc i < length sims \<Longrightarrow>
   getWorldStates r sims ! Suc i =
     getWorldState (sims ! Suc i) (robotAfter (getWorldStates r sims ! i))"
proof (induction sims arbitrary: r i)
  case Nil
  then show ?case by simp
next
  case (Cons sim sims)
  show ?case
  proof (cases i)
    case 0
    with Cons.prems obtain s rest where "sims = s # rest" by (cases sims) auto
    with 0 show ?thesis by (simp add: Let_def)
  next
    case (Suc j)
    with Cons.prems have "Suc j < length sims" by simp
    from Cons.IH [OF this] Suc show ?thesis by (simp add: Let_def)
  qed
qed

lemma elapsed_increasing:
  fixes t l :: "32 word"
  shows "l < t \<Longrightarrow> real (unat (t - l)) = real (unat t) - real (unat l)"
  by (simp add: unat_sub word_less_nat_alt of_nat_diff less_imp_le)

text \<open>The calls on the concrete scene are evaluated with these equations.\<close>

lemma call_firstTeam: "firstTeam (robotAfter (getWorldState sim r)) = firstTeam r"
  by (simp add: getWorldState_def readBall_def Let_def split: option.split prod.split)

lemma call_lastBallPosition:
  "ball sim = Some b \<Longrightarrow>
   lastBallPosition (robotAfter (getWorldState sim r)) = ballSamplePosition sim r b"
  by (simp add: getWorldState_ball readBall_hidden velocity_readBall)

lemma call_velocity:
  "ball sim = Some b \<Longrightarrow>
   estimatedHorizontalVelocity (getWorldState sim r) =
     Some (head2
       (if lastBallTime r \<noteq> 0 \<and> lastBallTime r \<noteq> getCurrentSystemTime sim
        then div3 (scale3 1000 (sub3 (ballSamplePosition sim r b) (lastBallPosition r)))
               (real (unat (getCurrentSystemTime sim - lastBallTime r)))
        else Zero3))"
  by (simp add: getWorldState_ball velocity_readBall)

lemma ballAt_simps:
  "ball (ballAt x t) = Some \<lparr>bodyPosition = Vector3f x 0 0.05, bodyVelocity = Vector3f 1 0 0\<rparr>"
  "is2D (ballAt x t) = False"
  "getCurrentSystemTime (ballAt x t) = t"
  "normal (ballAt x t) = (\<lambda>sigma. sigma)"
  by (simp_all add: ballAt_def exampleSimulation_def)

lemma ballSamplePosition_3D_second:
  "\<not> firstTeam r \<Longrightarrow> \<not> is2D sim \<Longrightarrow>
   ballSamplePosition sim r b =
     Vector3f (x3 (bodyPosition b) * 1000) (y3 (bodyPosition b) * 1000) (z3 (bodyPosition b) * 1000)"
  by (simp add: ballSamplePosition_def getPosition3D_def Let_def)

lemma robot6_simps:
  "firstTeam robot6 = False" "lastBallTime robot6 = 0" "hadVelocity robot6 = False"
  "curveVel robot6 = 0" "lastBallPosition robot6 = Zero3"
  by (simp_all add: robot6_def)

lemmas call_simps = call_firstTeam call_lastBallPosition call_velocity call_lastBallTime
  call_hadVelocity call_normalCalls call_curveVel ballAt_simps ballSamplePosition_3D_second
  robot6_simps div3_def scale3_def sub3_def head2_def Zero2_def Zero3_def Let_def

text \<open>
  C2: over successive calls in the 3D simulation with a ball and strictly increasing time
  stamps, \<open>Random::normal\<close> is called at a call exactly when the estimated horizontal
  velocity was zero at the call before and is not zero now; the standard deviation is
  \<open>0.015 * elapsed / 1000\<close> for the elapsed milliseconds, and the sample becomes the curve
  angle. When both velocities are not zero, nothing is drawn and the curve angle stays.
\<close>

theorem C2_curve_roll:
  fixes r sims i
  defines "calls \<equiv> getWorldStates r sims"
  defines "sigma \<equiv> 0.015 * (real (unat (getCurrentSystemTime (sims ! Suc i))) -
                              real (unat (getCurrentSystemTime (sims ! i)))) / 1000"
  assumes 3: "\<forall>sim \<in> set sims. \<not> is2D sim \<and> ball sim \<noteq> None"
      and increasing: "sorted_wrt (<) (map getCurrentSystemTime sims)"
      and i: "Suc i < length sims"
  shows "(if estimatedHorizontalVelocity (calls ! i) = Some Zero2 \<and>
             estimatedHorizontalVelocity (calls ! Suc i) \<noteq> Some Zero2
          then normalCalls (calls ! Suc i) = [sigma] \<and>
               curveVel (robotAfter (calls ! Suc i)) = normal (sims ! Suc i) sigma
          else normalCalls (calls ! Suc i) = []) \<and>
         (estimatedHorizontalVelocity (calls ! i) \<noteq> Some Zero2 \<and>
          estimatedHorizontalVelocity (calls ! Suc i) \<noteq> Some Zero2 \<longrightarrow>
            curveVel (robotAfter (calls ! Suc i)) = curveVel (robotAfter (calls ! i)))"
proof -
  define prev cur where "prev = sims ! i" and "cur = sims ! Suc i"
  define r1 where "r1 = robotAfter (calls ! i)"
  from i have mem: "prev \<in> set sims" "cur \<in> set sims"
    by (simp_all add: prev_def cur_def)
  with 3 have p: "ball prev \<noteq> None" and c: "ball cur \<noteq> None" "\<not> is2D cur"
    by auto
  from i obtain r0 where prev_call: "calls ! i = getWorldState prev r0"
    using getWorldStates_nth [of i sims r] by (auto simp: calls_def prev_def)
  have cur_call: "calls ! Suc i = getWorldState cur r1"
    using getWorldStates_Suc [OF i, of r] by (simp add: calls_def cur_def r1_def)
  have had: "hadVelocity r1 \<longleftrightarrow> estimatedHorizontalVelocity (calls ! i) \<noteq> Some Zero2"
    unfolding r1_def prev_call by (rule call_hadVelocity [OF p])
  have last: "lastBallTime r1 = getCurrentSystemTime prev"
    unfolding r1_def prev_call by (rule call_lastBallTime [OF p])
  from increasing i have later: "getCurrentSystemTime prev < getCurrentSystemTime cur"
    unfolding prev_def cur_def
    using sorted_wrt_nth_less [of "(<)" "map getCurrentSystemTime sims" i "Suc i"] by simp
  from later have differ: "lastBallTime r1 \<noteq> getCurrentSystemTime cur"
    unfolding last by simp
  define s where "s = 0.015 * real (unat (getCurrentSystemTime cur - lastBallTime r1)) / 1000"
  from later have "real (unat (getCurrentSystemTime cur - getCurrentSystemTime prev)) =
      real (unat (getCurrentSystemTime cur)) - real (unat (getCurrentSystemTime prev))"
    by (rule elapsed_increasing)
  then have elapsed: "s = sigma"
    by (simp only: s_def last sigma_def prev_def cur_def)
  note draws = call_normalCalls [OF c, of r1, folded s_def cur_call]
  note curve = call_curveVel [OF c, of r1, folded s_def cur_call]
  have estimate: "lastBallTime r1 \<noteq> 0"
    if "estimatedHorizontalVelocity (calls ! Suc i) \<noteq> Some Zero2"
    using that call_no_estimate [OF c(1), of r1] unfolding cur_call by blast
  show ?thesis
    using draws curve had estimate differ by (auto simp: elapsed cur_def r1_def)
qed

theorem C2_curve_roll_witness:
  "list_all (\<lambda>sim. \<not> is2D sim \<and> ball sim \<noteq> None) rollingBall \<and>
   map getCurrentSystemTime rollingBall = [1000, 1010, 1020] \<and>
   map estimatedHorizontalVelocity (getWorldStates robot6 rollingBall) =
     [Some Zero2, Some (Vector2f 1000 0), Some (Vector2f 1000 0)] \<and>
   map normalCalls (getWorldStates robot6 rollingBall) = [[], [15 / 100000], []] \<and>
   map (\<lambda>c. curveVel (robotAfter c)) (getWorldStates robot6 rollingBall) =
     [0, 15 / 100000, 15 / 100000]"
  using C2_curve_roll [of rollingBall 0 robot6] C2_curve_roll [of rollingBall 1 robot6]
  by (simp add: rollingBall_def call_simps)

text \<open>
  C3, as the code has it: in the 3D simulation with a ball, a call that estimates the
  velocity from a previous sample (\<open>lastBallTime\<close> is not zero and differs from the current
  time) and finds the horizontal velocity zero leaves the curve angle zero. A call without
  such a previous sample reports the zero velocity and leaves the curve angle as it was.
\<close>

theorem C3_curve_reset:
  assumes "\<not> is2D sim" and "ball sim \<noteq> None"
  shows "if lastBallTime r \<noteq> 0 \<and> lastBallTime r \<noteq> getCurrentSystemTime sim
         then estimatedHorizontalVelocity (getWorldState sim r) = Some Zero2 \<longrightarrow>
              curveVel (robotAfter (getWorldState sim r)) = 0
         else estimatedHorizontalVelocity (getWorldState sim r) = Some Zero2 \<and>
              curveVel (robotAfter (getWorldState sim r)) = curveVel r"
  using assms call_no_estimate [of sim r] by (simp add: call_curveVel)

theorem C3_curve_reset_witness:
  "\<not> is2D (ballAt 0.01 1020) \<and> ball (ballAt 0.01 1020) \<noteq> None \<and>
   lastBallTime (robotAfter (getWorldStates robot6 restingBall ! 1)) = 1010 \<and>
   curveVel (robotAfter (getWorldStates robot6 restingBall ! 1)) = 15 / 100000 \<and>
   getWorldStates robot6 restingBall ! 2 =
     getWorldState (ballAt 0.01 1020) (robotAfter (getWorldStates robot6 restingBall ! 1)) \<and>
   estimatedHorizontalVelocity (getWorldStates robot6 restingBall ! 2) = Some Zero2 \<and>
   curveVel (robotAfter (getWorldStates robot6 restingBall ! 2)) = 0"
  using C3_curve_reset [of "ballAt 0.01 1020" "robotAfter (getWorldStates robot6 restingBall ! 1)"]
  by (simp add: restingBall_def call_simps)

text \<open>
  A second call in the same millisecond reports the zero velocity, and the curve angle
  drawn before is still stored.
\<close>

theorem C3_same_time_counterexample:
  "map is2D sameTick = [False, False, False] \<and>
   None \<notin> set (map ball sameTick) \<and>
   map getCurrentSystemTime sameTick = [1000, 1010, 1010] \<and>
   map estimatedHorizontalVelocity (getWorldStates robot6 sameTick) =
     [Some Zero2, Some (Vector2f 1000 0), Some Zero2] \<and>
   map curveVel (map robotAfter (getWorldStates robot6 sameTick)) =
     [0, 15 / 100000, 15 / 100000] \<and>
   estimatedHorizontalVelocity (getWorldStates robot6 sameTick ! 2) = Some Zero2 \<and>
   curveVel (robotAfter (getWorldStates robot6 sameTick ! 2)) \<noteq> 0"
  by (simp add: sameTick_def call_simps)

subsection \<open>Half turns\<close>

lemma sameAngle_refl: "sameAngle a a"
  unfolding sameAngle_def by (rule exI [of _ 0]) simp

lemma sameAngle_turns: "sameAngle (a + 2 * pi * real_of_int k) a"
  unfolding sameAngle_def by (rule exI [of _ k]) simp

lemma sameAngle_trans: "sameAngle a b \<Longrightarrow> sameAngle b c \<Longrightarrow> sameAngle a c"
proof -
  assume "sameAngle a b" and "sameAngle b c"
  then obtain k l :: int where "a = b + 2 * pi * real_of_int k" and "b = c + 2 * pi * real_of_int l"
    unfolding sameAngle_def by blast
  then have "a = c + 2 * pi * real_of_int (k + l)"
    by (simp add: algebra_simps)
  then show ?thesis
    unfolding sameAngle_def by blast
qed

lemma sameAngle_add: "sameAngle a b \<Longrightarrow> sameAngle (c + a) (c + b)"
  unfolding sameAngle_def by auto

lemma sameAngle_full_turn: "sameAngle (pi + (a + pi)) a"
  unfolding sameAngle_def by (rule exI [of _ 1]) simp

lemma sameAngle_less_turns:
  "sameAngle (a - real_of_int n * (2 * pi)) a"
  "sameAngle (a - real_of_int n * (2 * pi) - 2 * pi) a"
  "sameAngle (a - real_of_int n * (2 * pi) + 2 * pi) a"
proof -
  have "a - real_of_int n * (2 * pi) = a + 2 * pi * real_of_int (- n)"
    by simp
  then show "sameAngle (a - real_of_int n * (2 * pi)) a"
    unfolding sameAngle_def by (rule exI)
  have "a - real_of_int n * (2 * pi) - 2 * pi = a + 2 * pi * real_of_int (- n - 1)"
    by (simp add: algebra_simps)
  then show "sameAngle (a - real_of_int n * (2 * pi) - 2 * pi) a"
    unfolding sameAngle_def by (rule exI)
  have "a - real_of_int n * (2 * pi) + 2 * pi = a + 2 * pi * real_of_int (- n + 1)"
    by (simp add: algebra_simps)
  then show "sameAngle (a - real_of_int n * (2 * pi) + 2 * pi) a"
    unfolding sameAngle_def by (rule exI)
qed

lemma wraps_Angle_normalize: "wraps Angle_normalize"
  unfolding wraps_def Angle_normalize_def Let_def
  by (intro allI) (simp only: sameAngle_less_turns sameAngle_refl simp_thms split: if_split)

lemma rotate_pi: "rotate v pi = Vector2f (- x2 v) (- y2 v)"
  by (simp add: rotate_def)

lemma half_turn_translation:
  "translation (Pose2f_plus nrm (Pose2f_rot pi) p) =
     Vector2f (- x2 (translation p)) (- y2 (translation p))"
  by (simp add: Pose2f_plus_def Pose2f_rot_def rotate_pi add2_def Zero2_def)

lemma half_turn_rotation:
  "rotation (Pose2f_plus nrm (Pose2f_rot pi) p) = nrm (pi + rotation p)"
  by (simp add: Pose2f_plus_def Pose2f_rot_def)

text \<open>
  C4: a canonical pose that is placed (first team: both horizontal axes negated and half a
  turn added to the yaw; second team: unchanged) and read back (first team: a half turn
  composed with the raw pose; second team: unchanged) has its position again, and its yaw
  up to whole turns; for the second team it is the very same pose.
\<close>

theorem C4_round_trip:
  fixes sim r changeRotation resetDynamics and x y z rx ry theta :: real
  defines "raw \<equiv> placedPose (moveRobotPerTeam sim r (Vector3f x y z) (Vector3f rx ry theta)
                                changeRotation resetDynamics)"
  assumes "wraps (normalize sim)"
  shows "translation (getOdometryData sim r raw) = Vector2f x y \<and>
         sameAngle (rotation (getOdometryData sim r raw)) theta \<and>
         (\<not> firstTeam r \<longrightarrow> getOdometryData sim r raw = \<lparr>rotation = theta, translation = Vector2f x y\<rparr>)"
proof (cases "firstTeam r")
  case False
  then show ?thesis
    by (simp add: raw_def placedPose_def moveRobotPerTeam_def getOdometryData_def head2_def
        sameAngle_refl)
next
  case True
  from assms(2) have n: "sameAngle (normalize sim a) a" for a
    by (simp add: wraps_def)
  have raw: "raw = \<lparr>rotation = normalize sim (theta + pi), translation = Vector2f (- x) (- y)\<rparr>"
    using True by (simp add: raw_def placedPose_def moveRobotPerTeam_def head2_def)
  have "sameAngle (pi + normalize sim (theta + pi)) (pi + (theta + pi))"
    by (rule sameAngle_add) (rule n)
  then have "sameAngle (pi + normalize sim (theta + pi)) theta"
    by (rule sameAngle_trans) (rule sameAngle_full_turn)
  with n have "sameAngle (normalize sim (pi + normalize sim (theta + pi))) theta"
    by (rule sameAngle_trans)
  with True show ?thesis
    by (simp add: raw getOdometryData_def half_turn_translation half_turn_rotation)
qed

theorem C4_round_trip_witness:
  "wraps (normalize exampleSimulation) \<and>
   placedPose (moveRobotPerTeam exampleSimulation robot1
       (Vector3f 1000 (- 500) 0) (Vector3f 0 0 (pi / 2)) True True) =
     \<lparr>rotation = - (pi / 2), translation = Vector2f (- 1000) 500\<rparr> \<and>
   getOdometryData exampleSimulation robot1
       \<lparr>rotation = - (pi / 2), translation = Vector2f (- 1000) 500\<rparr> =
     \<lparr>rotation = pi / 2, translation = Vector2f 1000 (- 500)\<rparr> \<and>
   sameAngle (pi / 2) (pi / 2)"
proof -
  have w: "wraps (normalize exampleSimulation)"
    by (simp add: exampleSimulation_def wraps_Angle_normalize)
  have n1: "Angle_normalize (3 * pi / 2) = - (pi / 2)"
    by (simp add: Angle_normalize_def Let_def)
  have n2: "Angle_normalize (pi / 2) = pi / 2"
    by (simp add: Angle_normalize_def Let_def)
  have nrm: "normalize exampleSimulation = Angle_normalize"
    by (simp add: exampleSimulation_def)
  have raw: "placedPose (moveRobotPerTeam exampleSimulation robot1
       (Vector3f 1000 (- 500) 0) (Vector3f 0 0 (pi / 2)) True True) =
     \<lparr>rotation = - (pi / 2), translation = Vector2f (- 1000) 500\<rparr>"
    by (simp add: placedPose_def moveRobotPerTeam_def robot1_def head2_def nrm n1)
  have first: "firstTeam robot1"
    by (simp add: robot1_def)
  show ?thesis
    using C4_round_trip [OF w, of robot1 1000 "- 500" 0 0 0 "pi / 2" True True] w
    by (simp add: raw getOdometryData_def first half_turn_rotation half_turn_translation
        nrm n2 sameAngle_refl)
qed

subsection \<open>The poses of the players\<close>

lemma pose_firstTeamPlayer:
  "pose (firstTeamPlayer sim r obj) =
     (if firstTeam r then Pose2f_plus (normalize sim) (Pose2f_rot pi) (snd (getPose2f sim obj))
      else snd (getPose2f sim obj))"
  by (simp add: firstTeamPlayer_def split: prod.split)

lemma pose_secondTeamPlayer:
  "pose (secondTeamPlayer sim r obj) =
     (if firstTeam r then Pose2f_plus (normalize sim) (Pose2f_rot pi) (snd (getPose2f sim obj))
      else snd (getPose2f sim obj))"
  by (simp add: secondTeamPlayer_def split: prod.split)

text \<open>
  C8: a robot with the raw pose \<open>x = 1000\<close>, \<open>y = 0\<close>, \<open>theta = 0\<close> is reported by a
  synchronizer of the first team at \<open>x = -1000\<close>, \<open>y = 0\<close> with the angle of 180 degrees
  (up to whole turns), and by a synchronizer of the second team with its raw pose. The
  player at a position of a list of the snapshot is the robot at that position of the
  roster, whatever the poses of the other robots are.
\<close>

theorem C8_first_team_pose:
  fixes sim r
  defines "raw \<equiv> \<lparr>rotation = 0, translation = Vector2f 1000 0\<rparr>"
  defines "firstTeamPlayers \<equiv>
             (if firstTeam r then ownTeamPlayers (worldState (getWorldState sim r))
              else opponentTeamPlayers (worldState (getWorldState sim r)))"
  defines "secondTeamPlayers \<equiv>
             (if firstTeam r then opponentTeamPlayers (worldState (getWorldState sim r))
              else ownTeamPlayers (worldState (getWorldState sim r)))"
  assumes w: "wraps (normalize sim)"
  shows "length firstTeamPlayers = length (firstTeamRobots r) \<and>
         length secondTeamPlayers = length (secondTeamRobots r) \<and>
         (\<forall>i < length (firstTeamRobots r).
            snd (getPose2f sim (firstTeamRobots r ! i)) = raw \<longrightarrow>
              (if firstTeam r
               then translation (pose (firstTeamPlayers ! i)) = Vector2f (- 1000) 0 \<and>
                    sameAngle (rotation (pose (firstTeamPlayers ! i))) pi
               else pose (firstTeamPlayers ! i) = raw)) \<and>
         (\<forall>i < length (secondTeamRobots r).
            snd (getPose2f sim (secondTeamRobots r ! i)) = raw \<longrightarrow>
              (if firstTeam r
               then translation (pose (secondTeamPlayers ! i)) = Vector2f (- 1000) 0 \<and>
                    sameAngle (rotation (pose (secondTeamPlayers ! i))) pi
               else pose (secondTeamPlayers ! i) = raw))"
proof -
  have f: "firstTeamPlayers = map (firstTeamPlayer sim r) (firstTeamRobots r)"
    unfolding firstTeamPlayers_def by (rule players_getWorldState(1))
  have s: "secondTeamPlayers = map (secondTeamPlayer sim r) (secondTeamRobots r)"
    unfolding secondTeamPlayers_def by (rule players_getWorldState(2))
  from w have "sameAngle (normalize sim (pi + 0)) (pi + 0)"
    unfolding wraps_def by blast
  then have half: "sameAngle (normalize sim pi) pi"
    by simp
  have turned: "if firstTeam r
      then translation (Pose2f_plus (normalize sim) (Pose2f_rot pi) raw) = Vector2f (- 1000) 0 \<and>
           sameAngle (rotation (Pose2f_plus (normalize sim) (Pose2f_rot pi) raw)) pi
      else True"
    using half by (simp add: raw_def half_turn_translation half_turn_rotation)
  show ?thesis
    using turned by (auto simp: f s pose_firstTeamPlayer pose_secondTeamPlayer)
qed

theorem C8_first_team_pose_witness:
  "wraps (normalize scatteredRobots) \<and>
   firstTeam robot1 \<and>
   firstTeamRobots robot1 ! 0 = Object ''RoboCup.robots.robot2'' \<and>
   secondTeamRobots robot1 ! 2 = Object ''RoboCup.extras.robot10'' \<and>
   snd (getPose2f scatteredRobots (Object ''RoboCup.robots.robot2'')) =
     \<lparr>rotation = 0, translation = Vector2f 1000 0\<rparr> \<and>
   snd (getPose2f scatteredRobots (Object ''RoboCup.extras.robot10'')) =
     \<lparr>rotation = 0, translation = Vector2f 1000 0\<rparr> \<and>
   pose (ownTeamPlayers (worldState (getWorldState scatteredRobots robot1)) ! 0) =
     \<lparr>rotation = - pi, translation = Vector2f (- 1000) 0\<rparr> \<and>
   pose (opponentTeamPlayers (worldState (getWorldState scatteredRobots robot1)) ! 2) =
     \<lparr>rotation = - pi, translation = Vector2f (- 1000) 0\<rparr> \<and>
   sameAngle (- pi) pi \<and>
   translation (pose (opponentTeamPlayers (worldState (getWorldState scatteredRobots robot1)) ! 0)) =
     Vector2f 0 (- 500) \<and>
   \<not> firstTeam robot6 \<and>
   firstTeamRobots robot6 ! 1 = Object ''RoboCup.robots.robot2'' \<and>
   secondTeamRobots robot6 ! 1 = Object ''RoboCup.extras.robot10'' \<and>
   pose (opponentTeamPlayers (worldState (getWorldState scatteredRobots robot6)) ! 1) =
     \<lparr>rotation = 0, translation = Vector2f 1000 0\<rparr> \<and>
   pose (ownTeamPlayers (worldState (getWorldState scatteredRobots robot6)) ! 1) =
     \<lparr>rotation = 0, translation = Vector2f 1000 0\<rparr> \<and>
   pose (ownTeamPlayers (worldState (getWorldState scatteredRobots robot6)) ! 0) =
     \<lparr>rotation = 1, translation = Vector2f 0 500\<rparr>"
proof -
  have nrm: "normalize scatteredRobots = Angle_normalize"
    by (simp add: scatteredRobots_def exampleSimulation_def)
  have w: "wraps (normalize scatteredRobots)"
    by (simp add: nrm wraps_Angle_normalize)
  have n: "Angle_normalize pi = - pi"
    by (simp add: Angle_normalize_def Let_def)
  have s: "sameAngle (- pi) pi"
    unfolding sameAngle_def by (rule exI [of _ "- 1"]) simp
  have g: "getPose2f scatteredRobots obj =
      (if obj = Object ''RoboCup.robots.robot2'' \<or> obj = Object ''RoboCup.extras.robot10''
       then (True, \<lparr>rotation = 0, translation = Vector2f 1000 0\<rparr>)
       else (False, \<lparr>rotation = 1, translation = Vector2f 0 500\<rparr>))" for obj
    by (simp add: scatteredRobots_def exampleSimulation_def)
  have r1: "firstTeam robot1"
    "firstTeamRobots robot1 = [Object ''RoboCup.robots.robot2'', Object ''RoboCup.extras.robot3'']"
    "secondTeamRobots robot1 = [Object ''RoboCup.robots.robot6'', Object ''RoboCup.robots.robot7'',
                                Object ''RoboCup.extras.robot10'']"
    by (simp_all add: robot1_def)
  have r6: "\<not> firstTeam robot6"
    "firstTeamRobots robot6 = [Object ''RoboCup.robots.robot1'', Object ''RoboCup.robots.robot2'',
                               Object ''RoboCup.extras.robot3'']"
    "secondTeamRobots robot6 = [Object ''RoboCup.robots.robot7'', Object ''RoboCup.extras.robot10'']"
    by (simp_all add: robot6_def)
  note players =
    players_getWorldState [of robot1 scatteredRobots, simplified r1 if_True]
    players_getWorldState [of robot6 scatteredRobots, simplified r6 if_False]
  show ?thesis
    using C8_first_team_pose [OF w, of robot1] C8_first_team_pose [OF w, of robot6] w s
    by (simp add: players r1 r6 g nrm n pose_firstTeamPlayer pose_secondTeamPlayer
        half_turn_translation half_turn_rotation Pose2f_plus_def Pose2f_rot_def rotate_def
        add2_def Zero2_def)
qed

subsection \<open>Friction\<close>

lemma norm2_scale2: "norm2 (scale2 v k) = \<bar>k\<bar> * norm2 v"
proof -
  have "x2 v * k * (x2 v * k) + y2 v * k * (y2 v * k) = (k * k) * (x2 v * x2 v + y2 v * y2 v)"
    by (simp add: algebra_simps)
  then show ?thesis
    by (simp add: norm2_def scale2_def real_sqrt_mult)
qed

lemma norm2_nonneg: "0 \<le> norm2 v"
  by (simp add: norm2_def)

lemma norm2_Zero2: "norm2 Zero2 = 0"
  by (simp add: norm2_def Zero2_def)

lemma scale2_zero: "scale2 v 0 = Zero2"
  by (simp add: scale2_def Zero2_def)

lemma applyBallFriction_2D:
  "is2D sim \<Longrightarrow> ball sim = Some b \<Longrightarrow>
   applyBallFriction sim friction =
     Some (b\<lparr>bodyVelocity :=
       (let v = (if norm2 (head2 (bodyVelocity b)) + friction * simStepLength sim / 1000 \<le> 0
                 then Zero2
                 else scale2 (head2 (bodyVelocity b))
                        ((norm2 (head2 (bodyVelocity b)) + friction * simStepLength sim / 1000) /
                         norm2 (head2 (bodyVelocity b))))
        in Vector3f (x2 v) (y2 v) (z3 (bodyVelocity b)))\<rparr>)"
  by (simp add: applyBallFriction_def Let_def)

lemma head2_Vector3f: "head2 (Vector3f (x2 v) (y2 v) c) = v"
  by (simp add: head2_def)

text \<open>
  C5: in the 2D simulation with a ball of speed \<open>S\<close> and a friction decrement
  \<open>d = friction * simStepLength / 1000\<close> that is not positive, the new velocity is the zero
  vector when the magnitude of \<open>d\<close> exceeds \<open>S\<close>; otherwise it is the old velocity scaled
  by a factor that is not negative (and positive while \<open>S + d\<close> is), and its magnitude is
  \<open>S + d\<close>.
\<close>

theorem C5_friction:
  fixes sim friction b
  defines "S \<equiv> norm2 (head2 (bodyVelocity b))"
  defines "d \<equiv> friction * simStepLength sim / 1000"
  assumes 2: "is2D sim" and b: "ball sim = Some b" and d: "d \<le> 0"
  shows "\<exists>b'. applyBallFriction sim friction = Some b' \<and>
           bodyPosition b' = bodyPosition b \<and>
           (if S < - d then head2 (bodyVelocity b') = Zero2
            else norm2 (head2 (bodyVelocity b')) = S + d \<and>
                 (\<exists>k\<ge>0. (0 < S + d \<longrightarrow> 0 < k) \<and>
                         head2 (bodyVelocity b') = scale2 (head2 (bodyVelocity b)) k))"
proof -
  define v where "v = head2 (bodyVelocity b)"
  define v' where "v' = (if S + d \<le> 0 then Zero2 else scale2 v ((S + d) / S))"
  define b' where "b' = b\<lparr>bodyVelocity := Vector3f (x2 v') (y2 v') (z3 (bodyVelocity b))\<rparr>"
  have call: "applyBallFriction sim friction = Some b'"
    unfolding applyBallFriction_2D [OF 2 b] b'_def v'_def v_def S_def d_def Let_def by simp
  have h: "head2 (bodyVelocity b') = v'"
    by (simp add: b'_def head2_Vector3f)
  have pos: "bodyPosition b' = bodyPosition b"
    by (simp add: b'_def)
  have S: "0 \<le> S" "S = norm2 v"
    by (simp_all add: S_def v_def norm2_nonneg)
  have "if S < - d then v' = Zero2
        else norm2 v' = S + d \<and> (\<exists>k\<ge>0. (0 < S + d \<longrightarrow> 0 < k) \<and> v' = scale2 v k)"
  proof (cases "S + d \<le> 0")
    case True
    then have z: "v' = Zero2" by (simp add: v'_def)
    show ?thesis
    proof (cases "S < - d")
      case True
      with z show ?thesis by simp
    next
      case False
      with True have "S + d = 0" by simp
      moreover from True have "\<exists>k\<ge>0. (0 < S + d \<longrightarrow> 0 < k) \<and> Zero2 = scale2 v k"
        by (intro exI [of _ 0]) (simp add: scale2_zero)
      ultimately show ?thesis
        using False z by (simp add: norm2_Zero2)
    qed
  next
    case False
    with d have pos: "0 < S" "0 < S + d" by simp_all
    then have k: "0 \<le> (S + d) / S" "0 < (S + d) / S" by simp_all
    from False have v': "v' = scale2 v ((S + d) / S)" by (simp add: v'_def)
    have "norm2 v' = \<bar>(S + d) / S\<bar> * S"
      by (simp add: v' norm2_scale2 S(2) [symmetric])
    also have "\<dots> = S + d"
      using pos k by simp
    finally have "norm2 v' = S + d" .
    moreover have "\<exists>k\<ge>0. (0 < S + d \<longrightarrow> 0 < k) \<and> v' = scale2 v k"
      using k v' by blast
    moreover from False have "\<not> S < - d" by simp
    ultimately show ?thesis by simp
  qed
  with call pos show ?thesis
    unfolding h [symmetric] v_def by blast
qed

theorem C5_friction_witness:
  "is2D flatBall \<and>
   ball flatBall = Some \<lparr>bodyPosition = Vector3f 1 0 0, bodyVelocity = Vector3f 3 4 0\<rparr> \<and>
   norm2 (Vector2f 3 4) = 5 \<and>
   (- 200) * simStepLength flatBall / 1000 = - 2 \<and>
   applyBallFriction flatBall (- 200) =
     Some \<lparr>bodyPosition = Vector3f 1 0 0, bodyVelocity = Vector3f (9 / 5) (12 / 5) 0\<rparr> \<and>
   norm2 (Vector2f (9 / 5) (12 / 5)) = 3 \<and>
   (- 1000) * simStepLength flatBall / 1000 = - 10 \<and>
   applyBallFriction flatBall (- 1000) =
     Some \<lparr>bodyPosition = Vector3f 1 0 0, bodyVelocity = Vector3f 0 0 0\<rparr>"
proof -
  have f: "is2D flatBall"
    "ball flatBall = Some \<lparr>bodyPosition = Vector3f 1 0 0, bodyVelocity = Vector3f 3 4 0\<rparr>"
    "simStepLength flatBall = 10"
    by (simp_all add: flatBall_def exampleSimulation_def)
  have "sqrt (5 * 5) = 5" and "sqrt (3 * 3) = 3"
    by (simp_all only: real_sqrt_abs2)
  then have n: "norm2 (Vector2f 3 4) = 5" "norm2 (Vector2f (9 / 5) (12 / 5)) = 3"
    by (simp_all add: norm2_def)
  show ?thesis
    using C5_friction [OF f(1) f(2), of "- 200"] C5_friction [OF f(1) f(2), of "- 1000"] n
    by (simp add: f applyBallFriction_2D [OF f(1) f(2)] head2_def scale2_def Zero2_def)
qed

end
